theory Spec2Isabelle
  imports Complex_Main
begin

section \<open>The authentication state (class AuthState of the auth store)\<close>

text \<open>
  JavaScript numbers that hold whole values (unix seconds, milliseconds since the epoch,
  status codes) are mathematical integers here; strings are \<open>string\<close>. Where the code
  can produce \<open>NaN\<close> (the time of an invalid \<open>Date\<close> and what is computed from it),
  a number is a \<open>number\<close>: \<open>NaN\<close> or a value.
\<close>

datatype 'a number = NaN | Num 'a

text \<open>
  The state slice \<open>auth\<close> of the NGXS store, with the eleven fields of the
  \<open>defaults\<close> object of the \<open>@State\<close> decorator. \<open>expires_at\<close> holds what the
  handlers store in it: whole unix seconds, or \<open>NaN\<close>.
\<close>

datatype ActiveAuthType = sign_in_active | sign_up_active | forgot_password_active

record AuthStateModel =
  isAuthenticated :: bool
  access_token :: string
  expires_at :: "int number"
  rememberMe :: bool
  username :: string
  is2StepVerificationRequired :: bool
  is2StepVerificationSuccessful :: bool
  isRedeemRecoveryCodeSuccessful :: bool
  userId :: string
  activeAuthType :: ActiveAuthType
  passwordResetCompleted :: bool

definition defaults :: AuthStateModel where
  "defaults =
     \<lparr> isAuthenticated = False, access_token = '''', expires_at = Num 0, rememberMe = False,
       username = '''', is2StepVerificationRequired = False,
       is2StepVerificationSuccessful = False, isRedeemRecoveryCodeSuccessful = False,
       userId = '''', activeAuthType = sign_in_active, passwordResetCompleted = False \<rparr>"

subsection \<open>Action payloads and the object spread\<close>

text \<open>
  Most handlers merge \<open>action.payload\<close> into the state with
  \<open>{ ...draft, ...action.payload }\<close>. A payload is an object literal holding some
  of the state's properties, in order: a list of property assignments. The spread copies
  the draft and then assigns the payload's properties from left to right.
\<close>

datatype Property =
    P_isAuthenticated bool
  | P_access_token string
  | P_expires_at "int number"
  | P_rememberMe bool
  | P_username string
  | P_is2StepVerificationRequired bool
  | P_is2StepVerificationSuccessful bool
  | P_isRedeemRecoveryCodeSuccessful bool
  | P_userId string
  | P_activeAuthType ActiveAuthType
  | P_passwordResetCompleted bool

type_synonym Payload = "Property list"

fun assign :: "Property \<Rightarrow> AuthStateModel \<Rightarrow> AuthStateModel" where
  "assign (P_isAuthenticated v) s = s\<lparr>isAuthenticated := v\<rparr>"
| "assign (P_access_token v) s = s\<lparr>access_token := v\<rparr>"
| "assign (P_expires_at v) s = s\<lparr>expires_at := v\<rparr>"
| "assign (P_rememberMe v) s = s\<lparr>rememberMe := v\<rparr>"
| "assign (P_username v) s = s\<lparr>username := v\<rparr>"
| "assign (P_is2StepVerificationRequired v) s = s\<lparr>is2StepVerificationRequired := v\<rparr>"
| "assign (P_is2StepVerificationSuccessful v) s = s\<lparr>is2StepVerificationSuccessful := v\<rparr>"
| "assign (P_isRedeemRecoveryCodeSuccessful v) s = s\<lparr>isRedeemRecoveryCodeSuccessful := v\<rparr>"
| "assign (P_userId v) s = s\<lparr>userId := v\<rparr>"
| "assign (P_activeAuthType v) s = s\<lparr>activeAuthType := v\<rparr>"
| "assign (P_passwordResetCompleted v) s = s\<lparr>passwordResetCompleted := v\<rparr>"

definition spread :: "AuthStateModel \<Rightarrow> Payload \<Rightarrow> AuthStateModel" where
  "spread draft payload = fold assign payload draft"

text \<open>The payload of \<open>Auth.Signin\<close>: \<open>{ accessToken: { access_token, expires_in }, userId }\<close>.\<close>

record AccessToken =
  token_access_token :: string
  expires_in :: int

record SigninPayload =
  accessToken :: AccessToken
  signin_userId :: string

subsection \<open>immer's produce\<close>

text \<open>
  \<open>produce(recipe)\<close> is immer's curried producer: applied to a base state it hands the
  recipe a draft of the base. A recipe is modelled by the pair it leaves behind: the draft
  after the recipe's mutations, and the value the recipe returns (\<open>None\<close> for
  \<open>undefined\<close>). When the recipe returns nothing, the result is the mutated draft; when it
  returns a value, that value replaces the state. (immer raises when a recipe both mutates
  the draft and returns another object; no recipe below does both.)
\<close>

type_synonym 'a recipe = "'a \<Rightarrow> 'a \<times> 'a option"

definition produce :: "'a recipe \<Rightarrow> 'a \<Rightarrow> 'a" where
  "produce recipe base =
     (case recipe base of
        (draft, None) \<Rightarrow> draft
      | (draft, Some result) \<Rightarrow> result)"

subsection \<open>Dates and date-fns\<close>

text \<open>
  A \<open>Date\<close> is its time value, \<open>getTime()\<close>: whole milliseconds since the epoch, at
  most 8.64e15 in absolute value, or \<open>NaN\<close> for an invalid date. \<open>new Date(value)\<close>
  is invalid when the value is \<open>NaN\<close> or out of that range. \<open>new Date()\<close>, the clock,
  is always a valid date.
\<close>

type_synonym Date = "int number"

definition MAX_TIME :: int where
  "MAX_TIME = 8640000000000000"

fun newDate :: "int number \<Rightarrow> Date" where
  "newDate NaN = NaN"
| "newDate (Num v) = (if \<bar>v\<bar> \<le> MAX_TIME then Num v else NaN)"

text \<open>
  \<open>add(date, {seconds: n})\<close> builds \<open>new Date(date.getTime() + n * 1000)\<close>;
  \<open>getUnixTime(date)\<close> is \<open>Math.floor(date.getTime() / 1000)\<close>; \<open>fromUnixTime(t)\<close>
  is \<open>new Date(t * 1000)\<close>; \<open>isBefore(a, b)\<close> is \<open>a.getTime() < b.getTime()\<close>.
  Arithmetic on \<open>NaN\<close> gives \<open>NaN\<close>, and a comparison with \<open>NaN\<close> is false.
  (Whole numbers of milliseconds within the range of a date are exact doubles, and a sum
  that leaves the range is out of it as a double too.)
\<close>

fun add_seconds :: "Date \<Rightarrow> int \<Rightarrow> Date" where
  "add_seconds NaN seconds = NaN"
| "add_seconds (Num t) seconds = newDate (Num (t + seconds * 1000))"

fun getUnixTime :: "Date \<Rightarrow> int number" where
  "getUnixTime NaN = NaN"
| "getUnixTime (Num t) = Num (t div 1000)"

fun fromUnixTime :: "int number \<Rightarrow> Date" where
  "fromUnixTime NaN = NaN"
| "fromUnixTime (Num unixTime) = newDate (Num (unixTime * 1000))"

fun isBefore :: "Date \<Rightarrow> Date \<Rightarrow> bool" where
  "isBefore (Num t) (Num u) = (t < u)"
| "isBefore date dateToCompare = False"

subsection \<open>The store context and local storage\<close>

text \<open>
  The handlers act on the state slice through the NGXS state context and on local storage
  through \<open>LocalStorageService\<close>. The two storage keys the auth state touches are
  \<open>AUTH_KEY\<close> (the persisted state) and \<open>ACTIVE_UNTIL\<close> (written by the session
  activity service).
\<close>

datatype StorageKey = AUTH_KEY | ACTIVE_UNTIL

datatype StoredItem = AuthItem AuthStateModel | OtherItem string

record App =
  authState :: AuthStateModel
  localStorage :: "StorageKey \<rightharpoonup> StoredItem"

text \<open>
  Modelled from the spec: \<open>LocalStorageService.setItem\<close> (the service is not among the
  sources) is the key-value store's \<open>set\<close>: it overwrites the value under the key.
\<close>

definition setItem :: "StorageKey \<Rightarrow> StoredItem \<Rightarrow> App \<Rightarrow> App" where
  "setItem k v ctx = ctx\<lparr>localStorage := (localStorage ctx)(k \<mapsto> v)\<rparr>"

text \<open>
  Modelled from the spec: \<open>LocalStorageService.removeItem\<close> (the service is not among the
  sources) is the key-value store's \<open>remove\<close>: it deletes the key.
\<close>

definition removeItem :: "StorageKey \<Rightarrow> App \<Rightarrow> App" where
  "removeItem k ctx = ctx\<lparr>localStorage := (localStorage ctx)(k := None)\<rparr>"

text \<open>\<open>ctx.getState()\<close> and \<open>ctx.setState(operator)\<close> of the NGXS state context.\<close>

definition getState :: "App \<Rightarrow> AuthStateModel" where
  "getState ctx = authState ctx"

definition setState :: "(AuthStateModel \<Rightarrow> AuthStateModel) \<Rightarrow> App \<Rightarrow> App" where
  "setState operator ctx = ctx\<lparr>authState := operator (authState ctx)\<rparr>"

subsection \<open>Action handlers\<close>

text \<open>
  Every handler ends with \<open>ctx.dispatch(new Auth.PersistSettings(auth))\<close>, which runs the
  one handler registered for that action, \<open>persistSettings\<close>; the handlers below call it
  directly. Logging has no effect on the state and is left out.
\<close>

definition persistSettings :: "AuthStateModel \<Rightarrow> App \<Rightarrow> App" where
  "persistSettings payload ctx = setItem AUTH_KEY (AuthItem payload) ctx"

text \<open>
  The recipe of the \<open>rememberMe\<close> handler. \<open>draft = { ...draft, ...action.payload }\<close>
  rebinds the recipe's parameter to a fresh object, \<open>draft.username = ''\<close> writes to that
  object, and the recipe ends without a \<open>return\<close>: the draft immer handed in is never
  written and the recipe's value is \<open>undefined\<close>.
\<close>

definition rememberMe_recipe :: "Payload \<Rightarrow> AuthStateModel recipe" where
  "rememberMe_recipe payload draft =
     (let local = spread draft payload;
          local = local\<lparr>username := ''''\<rparr>
      in (draft, None))"

definition rememberMe_handler :: "Payload \<Rightarrow> App \<Rightarrow> App" where
  "rememberMe_handler payload ctx =
     (let ctx = setState (produce (rememberMe_recipe payload)) ctx;
          auth = getState ctx
      in persistSettings auth ctx)"

text \<open>
  The recipe shared by the handlers that spread the payload and return the new object:
  \<open>draft = { ...draft, ...action.payload }; return draft;\<close>
\<close>

definition spread_recipe :: "Payload \<Rightarrow> AuthStateModel recipe" where
  "spread_recipe payload draft =
     (let local = spread draft payload
      in (draft, Some local))"

definition updateRememberMeUsername :: "Payload \<Rightarrow> App \<Rightarrow> App" where
  "updateRememberMeUsername payload ctx =
     (let ctx = setState (produce (spread_recipe payload)) ctx;
          auth = getState ctx
      in persistSettings auth ctx)"

definition signin_recipe :: "SigninPayload \<Rightarrow> int number \<Rightarrow> AuthStateModel recipe" where
  "signin_recipe payload expires draft =
     (draft\<lparr> isAuthenticated := True,
             access_token := token_access_token (accessToken payload),
             expires_at := expires,
             userId := signin_userId payload \<rparr>, None)"

text \<open>\<open>now\<close> is the time value of \<open>new Date()\<close> when the handler runs.\<close>

definition signin :: "int \<Rightarrow> SigninPayload \<Rightarrow> App \<Rightarrow> App" where
  "signin now payload ctx =
     (let expires = getUnixTime (add_seconds (Num now) (expires_in (accessToken payload)));
          ctx = setState (produce (signin_recipe payload expires)) ctx;
          auth = getState ctx
      in persistSettings auth ctx)"

definition setCurrentUserId :: "Payload \<Rightarrow> App \<Rightarrow> App" where
  "setCurrentUserId payload ctx =
     (let ctx = setState (produce (spread_recipe payload)) ctx;
          auth = getState ctx
      in persistSettings auth ctx)"

definition signout_recipe :: "AuthStateModel recipe" where
  "signout_recipe draft =
     (draft\<lparr> isAuthenticated := False,
             is2StepVerificationRequired := False,
             is2StepVerificationSuccessful := False,
             isRedeemRecoveryCodeSuccessful := False,
             access_token := '''',
             expires_at := Num 0,
             userId := '''' \<rparr>, None)"

definition signout :: "App \<Rightarrow> App" where
  "signout ctx =
     (let ctx = setState (produce signout_recipe) ctx;
          ctx = removeItem ACTIVE_UNTIL ctx;
          auth = getState ctx
      in persistSettings auth ctx)"

definition keepOrRemoveRememberMeUsername :: "App \<Rightarrow> App" where
  "keepOrRemoveRememberMeUsername ctx =
     (let remember = rememberMe (getState ctx);
          ctx = setState (produce (\<lambda>draft.
                  (draft\<lparr>username := (if remember then username draft else '''')\<rparr>, None))) ctx;
          auth = getState ctx
      in persistSettings auth ctx)"

definition switchAuthType :: "Payload \<Rightarrow> App \<Rightarrow> App" where
  "switchAuthType payload ctx =
     (let ctx = setState (produce (spread_recipe payload)) ctx;
          auth = getState ctx
      in persistSettings auth ctx)"

definition is2StepVerificationSuccessful_handler :: "Payload \<Rightarrow> App \<Rightarrow> App" where
  "is2StepVerificationSuccessful_handler payload ctx =
     (let ctx = setState (produce (spread_recipe payload)) ctx;
          auth = getState ctx
      in persistSettings auth ctx)"

definition is2StepVerificationRequired_handler :: "Payload \<Rightarrow> App \<Rightarrow> App" where
  "is2StepVerificationRequired_handler payload ctx =
     (let ctx = setState (produce (spread_recipe payload)) ctx;
          auth = getState ctx
      in persistSettings auth ctx)"

definition isRedeemRecoveryCodeSuccessful_handler :: "Payload \<Rightarrow> App \<Rightarrow> App" where
  "isRedeemRecoveryCodeSuccessful_handler payload ctx =
     (let ctx = setState (produce (spread_recipe payload)) ctx;
          auth = getState ctx
      in persistSettings auth ctx)"

definition passwordResetCompleted_handler :: "Payload \<Rightarrow> App \<Rightarrow> App" where
  "passwordResetCompleted_handler payload ctx =
     (let ctx = setState (produce (spread_recipe payload)) ctx;
          auth = getState ctx
      in persistSettings auth ctx)"

subsection \<open>Dispatch\<close>

text \<open>
  Modelled from the spec: the action classes of \<open>auth.store.actions\<close> (not among the
  sources), one for each transition and one for persisting, each of a type of its own and
  each carrying the \<open>payload\<close> its handler reads.
\<close>

datatype Action =
    RememberMeOptionChange Payload
  | UpdateRememberMeUsername Payload
  | Signin SigninPayload
  | SetCurrentUserId Payload
  | Signout
  | KeepOrRemoveRememberMeUsername
  | SwitchAuthType Payload
  | Is2StepVerificationSuccessful Payload
  | Is2StepVerificationRequired Payload
  | IsRedeemRecoveryCodeSuccessful Payload
  | PasswordResetCompleted Payload
  | PersistSettings AuthStateModel

text \<open>
  The store runs, for a dispatched action, every handler whose \<open>@Action\<close> decorator
  names the action's class, in the order of the class body. Two handlers are decorated
  with \<open>Auth.Is2StepVerificationSuccessful\<close> (\<open>is2StepVerificationSuccessful\<close> and
  \<open>is2StepVerificationRequired\<close>); none is decorated with
  \<open>Auth.Is2StepVerificationRequired\<close>, so that action reaches no handler of this state.
\<close>

fun dispatch :: "int \<Rightarrow> Action \<Rightarrow> App \<Rightarrow> App" where
  "dispatch now (RememberMeOptionChange p) ctx = rememberMe_handler p ctx"
| "dispatch now (UpdateRememberMeUsername p) ctx = updateRememberMeUsername p ctx"
| "dispatch now (Signin p) ctx = signin now p ctx"
| "dispatch now (SetCurrentUserId p) ctx = setCurrentUserId p ctx"
| "dispatch now Signout ctx = signout ctx"
| "dispatch now KeepOrRemoveRememberMeUsername ctx = keepOrRemoveRememberMeUsername ctx"
| "dispatch now (SwitchAuthType p) ctx = switchAuthType p ctx"
| "dispatch now (Is2StepVerificationSuccessful p) ctx =
     is2StepVerificationRequired_handler p (is2StepVerificationSuccessful_handler p ctx)"
| "dispatch now (Is2StepVerificationRequired p) ctx = ctx"
| "dispatch now (IsRedeemRecoveryCodeSuccessful p) ctx = isRedeemRecoveryCodeSuccessful_handler p ctx"
| "dispatch now (PasswordResetCompleted p) ctx = passwordResetCompleted_handler p ctx"
| "dispatch now (PersistSettings s) ctx = persistSettings s ctx"

subsection \<open>Selectors\<close>

text \<open>
  \<open>_selectExpiresAt\<close> (named without its underscore) turns the stored unix seconds into a
  date; \<open>state.expires_at || 0\<close> replaces a falsy value (0 or \<open>NaN\<close>) by 0. The
  selectors declared with \<open>@Selector([AuthState._selectExpiresAt])\<close> receive the state
  and that date (the store is configured with \<open>injectContainerState\<close>); \<open>now\<close> is the
  time value of \<open>new Date()\<close> when the body of the selector runs.
\<close>

definition selectExpiresAt :: "AuthStateModel \<Rightarrow> Date" where
  "selectExpiresAt state =
     fromUnixTime (case expires_at state of
                     NaN \<Rightarrow> Num 0
                   | Num v \<Rightarrow> if v = 0 then Num 0 else Num v)"

definition selectDidUserExplicitlySignout :: "AuthStateModel \<Rightarrow> bool" where
  "selectDidUserExplicitlySignout state = (access_token state = '''')"

definition selectIsAuthenticated :: "int \<Rightarrow> AuthStateModel \<Rightarrow> Date \<Rightarrow> bool" where
  "selectIsAuthenticated now state expires_at_date =
     (isAuthenticated state \<and> isBefore (Num now) expires_at_date)"

text \<open>
  The difference and the quotient are exact here; JavaScript rounds them to the nearest
  double.
\<close>

definition selectExpiresInSeconds :: "int \<Rightarrow> AuthStateModel \<Rightarrow> Date \<Rightarrow> real number" where
  "selectExpiresInSeconds now state expires_at_date =
     (case expires_at_date of
        NaN \<Rightarrow> NaN
      | Num time \<Rightarrow>
          (let difference = time - now;
               seconds = real_of_int difference / 1000
           in Num \<bar>seconds\<bar>))"

text \<open>A number that is not \<open>NaN\<close> and not below 0.\<close>

fun nonnegative :: "real number \<Rightarrow> bool" where
  "nonnegative NaN = False"
| "nonnegative (Num v) = (0 \<le> v)"

text \<open>
  The store does not run the body of a selector on every read: NGXS wraps it in
  \<open>memoize\<close>, which keeps the arguments and the result of the last call and returns that
  result again while the arguments are the same objects (compared with \<open>===\<close>). The
  arguments here are the state object and the date \<open>_selectExpiresAt\<close> gave for it,
  itself memoized on the state object: the date is the same object whenever the state
  object is. So the key of the memo is the identity of the state object. A state object
  is a pair of its reference, which tells objects apart, and its value (the store never
  writes to a state object, it replaces it); a memo is empty or holds the reference of the
  last call's state object and the last result.
\<close>

type_synonym 'r memo = "(nat \<times> 'r) option"

definition cached :: "'r memo \<Rightarrow> nat \<Rightarrow> bool" where
  "cached memo ref = (case memo of None \<Rightarrow> False | Some (lastRef, lastResult) \<Rightarrow> lastRef = ref)"

definition memoize :: "('a \<Rightarrow> 'r) \<Rightarrow> 'r memo \<Rightarrow> nat \<times> 'a \<Rightarrow> 'r \<times> 'r memo" where
  "memoize func memo obj =
     (case memo of
        None \<Rightarrow> (let result = func (snd obj) in (result, Some (fst obj, result)))
      | Some (lastRef, lastResult) \<Rightarrow>
          if lastRef = fst obj then (lastResult, Some (fst obj, lastResult))
          else (let result = func (snd obj) in (result, Some (fst obj, result))))"

text \<open>
  The two selectors as the store evaluates them: a read at time \<open>now\<close> of a state object,
  with the selector's memo, gives the value read and the memo left behind.
\<close>

definition store_selectIsAuthenticated ::
  "int \<Rightarrow> bool memo \<Rightarrow> nat \<times> AuthStateModel \<Rightarrow> bool \<times> bool memo" where
  "store_selectIsAuthenticated now memo obj =
     memoize (\<lambda>state. selectIsAuthenticated now state (selectExpiresAt state)) memo obj"

definition store_selectExpiresInSeconds ::
  "int \<Rightarrow> real number memo \<Rightarrow> nat \<times> AuthStateModel
     \<Rightarrow> real number \<times> real number memo" where
  "store_selectExpiresInSeconds now memo obj =
     memoize (\<lambda>state. selectExpiresInSeconds now state (selectExpiresAt state)) memo obj"

section \<open>The HTTP status interceptor (class HttpStatusInterceptor)\<close>

text \<open>
  An \<open>HttpErrorResponse\<close> is read through its \<open>status\<close> and its \<open>error\<close> (the
  response body, of any shape: a type parameter).
\<close>

record 'b HttpErrorResponse =
  status :: int
  error :: 'b

text \<open>
  The values stored as internal server error: either the body itself
  (\<open>e.error as InternalServerErrorDetails\<close>) or an object
  \<open>{ status: e.status, message: ... }\<close> whose message is the body or a string literal.
\<close>

datatype 'b Message = BodyMessage 'b | TextMessage string

datatype 'b InternalServerErrorDetails =
    ErrorBody 'b
  | ErrorObject int "'b Message"

text \<open>
  Modelled from the spec: \<open>ServerErrorService\<close> (not among the sources) keeps the latest
  validation error and the latest internal server error; assigning to its
  \<open>problemDetails\<close> or \<open>internalServerErrorDetails\<close> property stores the value.
\<close>

record 'b ServerErrorService =
  problemDetails :: "'b option"
  internalServerErrorDetails :: "'b InternalServerErrorDetails option"

text \<open>
  The observable \<open>_handleError$\<close> returns: rxjs's \<open>NEVER\<close>, which emits nothing and
  never fails, or \<open>throwError(x)\<close>, which fails with \<open>x\<close> (the response itself or the
  error details).
\<close>

datatype 'b Thrown =
    ThrownResponse "'b HttpErrorResponse"
  | ThrownDetails "'b InternalServerErrorDetails"

datatype 'b Observable = NEVER | throwError "'b Thrown"

fun is_hard_failure :: "'b Observable \<Rightarrow> bool" where
  "is_hard_failure NEVER = False"
| "is_hard_failure (throwError e) = True"

text \<open>
  \<open>_handleError$\<close>, with the service's state passed through. The utility
  \<open>implementsOdmWebApiException\<close> is not among the sources and is a parameter.
\<close>

definition handleError ::
  "('b \<Rightarrow> bool) \<Rightarrow> 'b HttpErrorResponse \<Rightarrow> 'b ServerErrorService
     \<Rightarrow> 'b ServerErrorService \<times> 'b Observable" where
  "handleError implementsOdmWebApiException e svc =
     (if status e = 400 then
        (svc\<lparr>problemDetails := Some (error e)\<rparr>, NEVER)
      else if status e = 401 \<or> status e = 403 then
        (svc\<lparr>problemDetails := Some (error e)\<rparr>, throwError (ThrownResponse e))
      else if status e = 500 then
        (let internalServerError = error e in
         if implementsOdmWebApiException internalServerError then
           (svc\<lparr>internalServerErrorDetails := Some (ErrorBody (error e))\<rparr>,
            throwError (ThrownDetails (ErrorBody internalServerError)))
         else
           (let err = ErrorObject (status e) (BodyMessage (error e)) in
            (svc\<lparr>internalServerErrorDetails := Some err\<rparr>, throwError (ThrownDetails err))))
      else if status e = 504 then
        (let err = ErrorObject (status e) (TextMessage ''Server is down.'') in
         (svc\<lparr>internalServerErrorDetails := Some err\<rparr>, throwError (ThrownDetails err)))
      else
        (svc, throwError (ThrownResponse e)))"

section \<open>The sign-in container (class SignInContainerComponent)\<close>

text \<open>
  Modelled from the spec: the submitted sign-in model (the interface \<open>SigninUser\<close> is
  not among the sources) holds the \<open>email\<close> and the \<open>password\<close> the submit handler
  checks.
\<close>

record SigninUser =
  email :: string
  password :: string

text \<open>
  The component, as far as the submit handler reads or writes it: the errors of the form's
  email control and the sandbox service. The errors are \<open>null\<close> or an object keyed by
  error code, each value kept as its truthiness; Angular's \<open>hasError(code)\<close> is true when
  the errors are not \<open>null\<close> and the value under the code is truthy. The sandbox
  service is not among the sources: the component records the calls of its
  \<open>signinUser\<close>, in order.
\<close>

record SignInContainerComponent =
  signinForm_email_errors :: "(string \<rightharpoonup> bool) option"
  signinUser_calls :: "SigninUser list"

definition hasError :: "string \<Rightarrow> (string \<rightharpoonup> bool) option \<Rightarrow> bool" where
  "hasError errorCode errors =
     (case errors of
        None \<Rightarrow> False
      | Some errs \<Rightarrow> (case errs errorCode of None \<Rightarrow> False | Some truthy \<Rightarrow> truthy))"

definition onSigninSubmitted ::
  "SigninUser \<Rightarrow> SignInContainerComponent \<Rightarrow> SignInContainerComponent" where
  "onSigninSubmitted model c =
     (let c = (if hasError ''serverError'' (signinForm_email_errors c)
               then c\<lparr>signinForm_email_errors := None\<rparr> else c)
      in if email model \<noteq> '''' \<and> password model \<noteq> ''''
         then c\<lparr>signinUser_calls := signinUser_calls c @ [model]\<rparr>
         else c)"

section \<open>The two factor authentication component (class TwoFactorAuthenticationComponent)\<close>

text \<open>
  The setter \<open>authenticatorSetup\<close> reads the \<open>authenticatorUri\<close> and the
  \<open>sharedKey\<close> of its value (the interface \<open>TwoFactorAuthenticationSetup\<close> is not among
  the sources).
\<close>

record TwoFactorAuthenticationSetup =
  authenticatorUri :: string
  sharedKey :: string

text \<open>
  The fields the component's setters and handlers read or write (the remaining inputs are
  plain fields that no method of the class touches). The two error slots
  \<open>_problemDetails\<close> and \<open>_internalServerErrorDetails\<close> are \<open>None\<close> when \<open>null\<close>
  or \<open>undefined\<close>; \<open>twoFactorEnabledToggle\<close> is the \<open>checked\<close> flag of the slide
  toggle once the view has one; \<open>emitted\<close> lists what the output emitters have emitted.
  The types of the error values and of the emitted events are parameters.
\<close>

datatype ('t, 'r, 'v) Output =
    TwoFactorAuthToggleChanged 't
  | CancelSetupWizardClicked
  | Finish2faSetupClicked 'r
  | GenerateNew2faRecoveryCodesClicked
  | VerifyAuthenticatorClicked 'v

record ('p, 'i, 't, 'r, 'v) TwoFactorAuthenticationComponent =
  tfa_problemDetails :: "'p option"
  tfa_internalServerErrorDetails :: "'i option"
  twoFactorEnabled :: bool
  tfa_twoFactorAuthToggleLoading :: bool
  tfa_authenticatorSetup :: "TwoFactorAuthenticationSetup option"
  showTwoFactorAuthSetupWizard :: bool
  twoFactorEnabledToggle :: "bool option"
  emitted :: "('t, 'r, 'v) Output list"

text \<open>
  The component as constructed: the field initialisers of the class, with the fields left
  \<open>undefined\<close> empty (\<open>twoFactorEnabled\<close>, a boolean, is falsy).
\<close>

definition initial :: "('p, 'i, 't, 'r, 'v) TwoFactorAuthenticationComponent" where
  "initial =
     \<lparr> tfa_problemDetails = None, tfa_internalServerErrorDetails = None,
       twoFactorEnabled = False, tfa_twoFactorAuthToggleLoading = False,
       tfa_authenticatorSetup = None, showTwoFactorAuthSetupWizard = False,
       twoFactorEnabledToggle = None, emitted = [] \<rparr>"

definition emit ::
  "('t, 'r, 'v) Output \<Rightarrow> ('p, 'i, 't, 'r, 'v) TwoFactorAuthenticationComponent
     \<Rightarrow> ('p, 'i, 't, 'r, 'v) TwoFactorAuthenticationComponent" where
  "emit out c = c\<lparr>emitted := emitted c @ [out]\<rparr>"

text \<open>The input setters \<open>problemDetails\<close> and \<open>internalServerErrorDetails\<close>.\<close>

definition set_problemDetails ::
  "'p option \<Rightarrow> ('p, 'i, 't, 'r, 'v) TwoFactorAuthenticationComponent
     \<Rightarrow> ('p, 'i, 't, 'r, 'v) TwoFactorAuthenticationComponent" where
  "set_problemDetails v c =
     (let c = c\<lparr>tfa_internalServerErrorDetails := None\<rparr>
      in c\<lparr>tfa_problemDetails := v\<rparr>)"

definition set_internalServerErrorDetails ::
  "'i option \<Rightarrow> ('p, 'i, 't, 'r, 'v) TwoFactorAuthenticationComponent
     \<Rightarrow> ('p, 'i, 't, 'r, 'v) TwoFactorAuthenticationComponent" where
  "set_internalServerErrorDetails v c =
     (let c = c\<lparr>tfa_problemDetails := None\<rparr>
      in c\<lparr>tfa_internalServerErrorDetails := v\<rparr>)"

text \<open>
  The setter \<open>twoFactorAuthToggleLoading\<close> stores the value and defers, with
  \<open>setTimeout\<close>, the callback \<open>twoFactorAuthToggleLoading_timeout\<close>.
\<close>

definition set_twoFactorAuthToggleLoading ::
  "bool \<Rightarrow> ('p, 'i, 't, 'r, 'v) TwoFactorAuthenticationComponent
     \<Rightarrow> ('p, 'i, 't, 'r, 'v) TwoFactorAuthenticationComponent" where
  "set_twoFactorAuthToggleLoading v c = c\<lparr>tfa_twoFactorAuthToggleLoading := v\<rparr>"

definition twoFactorAuthToggleLoading_timeout ::
  "('p, 'i, 't, 'r, 'v) TwoFactorAuthenticationComponent
     \<Rightarrow> ('p, 'i, 't, 'r, 'v) TwoFactorAuthenticationComponent" where
  "twoFactorAuthToggleLoading_timeout c =
     (if twoFactorEnabledToggle c \<noteq> None
         \<and> (tfa_problemDetails c \<noteq> None \<or> tfa_internalServerErrorDetails c \<noteq> None)
      then c\<lparr>twoFactorEnabledToggle := Some (twoFactorEnabled c)\<rparr>
      else c)"

definition set_authenticatorSetup ::
  "TwoFactorAuthenticationSetup \<Rightarrow> ('p, 'i, 't, 'r, 'v) TwoFactorAuthenticationComponent
     \<Rightarrow> ('p, 'i, 't, 'r, 'v) TwoFactorAuthenticationComponent" where
  "set_authenticatorSetup v c =
     (let c = c\<lparr>tfa_authenticatorSetup := Some v\<rparr>
      in if authenticatorUri v \<noteq> '''' \<and> sharedKey v \<noteq> ''''
         then c\<lparr>showTwoFactorAuthSetupWizard := True\<rparr>
         else c)"

text \<open>\<open>_removeServerErrors\<close> and the event handlers.\<close>

definition removeServerErrors ::
  "('p, 'i, 't, 'r, 'v) TwoFactorAuthenticationComponent
     \<Rightarrow> ('p, 'i, 't, 'r, 'v) TwoFactorAuthenticationComponent" where
  "removeServerErrors c =
     (let c = c\<lparr>tfa_problemDetails := None\<rparr>
      in c\<lparr>tfa_internalServerErrorDetails := None\<rparr>)"

definition onTwoFactorAuthToggle ::
  "'t \<Rightarrow> ('p, 'i, 't, 'r, 'v) TwoFactorAuthenticationComponent
     \<Rightarrow> ('p, 'i, 't, 'r, 'v) TwoFactorAuthenticationComponent" where
  "onTwoFactorAuthToggle event c =
     (let c = removeServerErrors c
      in emit (TwoFactorAuthToggleChanged event) c)"

definition onCancelSetupWizard ::
  "('p, 'i, 't, 'r, 'v) TwoFactorAuthenticationComponent
     \<Rightarrow> ('p, 'i, 't, 'r, 'v) TwoFactorAuthenticationComponent" where
  "onCancelSetupWizard c =
     (let c = c\<lparr>showTwoFactorAuthSetupWizard := False\<rparr>;
          c = removeServerErrors c
      in emit CancelSetupWizardClicked c)"

definition onFinish2faSetup ::
  "'r \<Rightarrow> ('p, 'i, 't, 'r, 'v) TwoFactorAuthenticationComponent
     \<Rightarrow> ('p, 'i, 't, 'r, 'v) TwoFactorAuthenticationComponent" where
  "onFinish2faSetup event c =
     (let c = c\<lparr>showTwoFactorAuthSetupWizard := False\<rparr>
      in emit (Finish2faSetupClicked event) c)"

definition onGenerateNew2FaRecoveryCodes ::
  "('p, 'i, 't, 'r, 'v) TwoFactorAuthenticationComponent
     \<Rightarrow> ('p, 'i, 't, 'r, 'v) TwoFactorAuthenticationComponent" where
  "onGenerateNew2FaRecoveryCodes c =
     (let c = removeServerErrors c
      in emit GenerateNew2faRecoveryCodesClicked c)"

definition onVerifyAuthenticator ::
  "'v \<Rightarrow> ('p, 'i, 't, 'r, 'v) TwoFactorAuthenticationComponent
     \<Rightarrow> ('p, 'i, 't, 'r, 'v) TwoFactorAuthenticationComponent" where
  "onVerifyAuthenticator event c =
     (let c = removeServerErrors c
      in emit (VerifyAuthenticatorClicked event) c)"

definition onUserCodesPanelClosed ::
  "('p, 'i, 't, 'r, 'v) TwoFactorAuthenticationComponent
     \<Rightarrow> ('p, 'i, 't, 'r, 'v) TwoFactorAuthenticationComponent" where
  "onUserCodesPanelClosed c = removeServerErrors c"

text \<open>
  Everything that can happen to the component: an input is assigned (through a setter, or
  plainly for \<open>twoFactorEnabled\<close>), the deferred callback runs, the view attaches the
  slide toggle, or the user triggers one of the six event handlers.
\<close>

datatype ('p, 'i, 't, 'r, 'v) Event =
    Input_problemDetails "'p option"
  | Input_internalServerErrorDetails "'i option"
  | Input_twoFactorEnabled bool
  | Input_twoFactorAuthToggleLoading bool
  | Timeout_twoFactorAuthToggleLoading
  | Input_authenticatorSetup TwoFactorAuthenticationSetup
  | View_slideToggle bool
  | TwoFactorAuthToggle 't
  | CancelSetupWizard
  | Finish2faSetup 'r
  | GenerateNew2FaRecoveryCodes
  | VerifyAuthenticator 'v
  | UserCodesPanelClosed

fun step ::
  "('p, 'i, 't, 'r, 'v) Event \<Rightarrow> ('p, 'i, 't, 'r, 'v) TwoFactorAuthenticationComponent
     \<Rightarrow> ('p, 'i, 't, 'r, 'v) TwoFactorAuthenticationComponent" where
  "step (Input_problemDetails v) c = set_problemDetails v c"
| "step (Input_internalServerErrorDetails v) c = set_internalServerErrorDetails v c"
| "step (Input_twoFactorEnabled v) c = c\<lparr>twoFactorEnabled := v\<rparr>"
| "step (Input_twoFactorAuthToggleLoading v) c = set_twoFactorAuthToggleLoading v c"
| "step Timeout_twoFactorAuthToggleLoading c = twoFactorAuthToggleLoading_timeout c"
| "step (Input_authenticatorSetup v) c = set_authenticatorSetup v c"
| "step (View_slideToggle v) c = c\<lparr>twoFactorEnabledToggle := Some v\<rparr>"
| "step (TwoFactorAuthToggle e) c = onTwoFactorAuthToggle e c"
| "step CancelSetupWizard c = onCancelSetupWizard c"
| "step (Finish2faSetup e) c = onFinish2faSetup e c"
| "step GenerateNew2FaRecoveryCodes c = onGenerateNew2FaRecoveryCodes c"
| "step (VerifyAuthenticator e) c = onVerifyAuthenticator e c"
| "step UserCodesPanelClosed c = onUserCodesPanelClosed c"

text \<open>At most one of the two error slots holds a value.\<close>

definition at_most_one_error :: "('p, 'i, 't, 'r, 'v) TwoFactorAuthenticationComponent \<Rightarrow> bool" where
  "at_most_one_error c = (tfa_problemDetails c = None \<or> tfa_internalServerErrorDetails c = None)"

section \<open>Properties of the authentication state\<close>

lemma memoize_miss:
  "\<not> cached memo (fst obj) \<Longrightarrow>
     memoize func memo obj = (func (snd obj), Some (fst obj, func (snd obj)))"
  by (auto simp add: memoize_def cached_def Let_def split: option.splits)

lemma memoize_again:
  "fst (memoize g (snd (memoize func memo obj)) obj) = fst (memoize func memo obj)"
  by (auto simp add: memoize_def Let_def split: option.splits)

lemma produce_rememberMe: "produce (rememberMe_recipe p) s = s"
  by (simp add: produce_def rememberMe_recipe_def Let_def)

lemma authState_rememberMe_handler: "authState (rememberMe_handler p ctx) = authState ctx"
  by (simp add: rememberMe_handler_def setState_def getState_def persistSettings_def
      setItem_def produce_rememberMe)

text \<open>
  C1. The claim: after the RememberMeOptionChange action the state's \<open>rememberMe\<close> is the
  payload's and its \<open>username\<close> is empty. The handler's recipe writes only to a local copy
  and returns nothing, so the state is left as it was: from \<open>rememberMe = false\<close>,
  \<open>username = 'bob'\<close>, the payload \<open>{ rememberMe: true }\<close> leaves \<open>rememberMe\<close>
  false and \<open>username\<close> \<open>'bob'\<close>.
\<close>

theorem remember_me_option_change_failing_input:
  "rememberMe (authState (dispatch 0 (RememberMeOptionChange [P_rememberMe True])
      \<lparr>authState = defaults\<lparr>username := ''bob''\<rparr>, localStorage = Map.empty\<rparr>)) = False
   \<and> username (authState (dispatch 0 (RememberMeOptionChange [P_rememberMe True])
      \<lparr>authState = defaults\<lparr>username := ''bob''\<rparr>, localStorage = Map.empty\<rparr>)) = ''bob''"
  by (simp add: authState_rememberMe_handler defaults_def)

lemma produce_spread: "produce (spread_recipe p) s = spread s p"
  by (simp add: produce_def spread_recipe_def)

text \<open>
  Run on its own payload, the handler \<open>is2StepVerificationRequired\<close> would merge it into
  the state; the store never runs it for the action it is written for.
\<close>

lemma authState_is2StepVerificationRequired_handler:
  "authState (is2StepVerificationRequired_handler p ctx) = spread (authState ctx) p"
  by (simp add: is2StepVerificationRequired_handler_def setState_def getState_def
      persistSettings_def setItem_def produce_spread)

text \<open>
  C2. The claim: after the Is2StepVerificationRequired action the state's
  \<open>is2StepVerificationRequired\<close> is the payload's. No handler is registered for that
  action (the handler written for it is registered for Is2StepVerificationSuccessful), so
  from the default state the payload \<open>{ is2StepVerificationRequired: true }\<close> leaves the
  flag false.
\<close>

theorem two_step_required_failing_input:
  "is2StepVerificationRequired (authState (dispatch 0
      (Is2StepVerificationRequired [P_is2StepVerificationRequired True])
      \<lparr>authState = defaults, localStorage = Map.empty\<rparr>)) = False"
  by (simp add: defaults_def)

lemma authState_signin:
  "authState (signin now p ctx) =
     (authState ctx)\<lparr> isAuthenticated := True,
             access_token := token_access_token (accessToken p),
             expires_at := getUnixTime (newDate (Num (now + expires_in (accessToken p) * 1000))),
             userId := signin_userId p \<rparr>"
  by (simp add: signin_def setState_def getState_def persistSettings_def setItem_def
      produce_def signin_recipe_def Let_def)

lemma expiry_in_range:
  assumes "0 \<le> life" and "\<bar>now\<bar> \<le> MAX_TIME" and "now + 1000 * life \<le> MAX_TIME"
  shows "\<bar>(now div 1000 + life) * 1000\<bar> \<le> MAX_TIME"
proof -
  have hi: "1000 * (now div 1000) \<le> now" by linarith
  have "- 8640000000000000 \<le> now" using assms(2) by (simp add: MAX_TIME_def)
  then have "- 8640000000000 \<le> now div 1000" by linarith
  then show ?thesis using hi assms by (simp add: MAX_TIME_def)
qed

lemma fresh_read_after_signin_in_range:
  assumes "0 \<le> expires_in (accessToken p)" and "\<bar>now\<bar> \<le> MAX_TIME"
    and "now + 1000 * expires_in (accessToken p) \<le> MAX_TIME"
  shows "selectIsAuthenticated t (authState (signin now p ctx))
           (selectExpiresAt (authState (signin now p ctx))) \<longleftrightarrow>
         t < 1000 * (now div 1000 + expires_in (accessToken p))"
proof -
  have lo: "\<bar>now + expires_in (accessToken p) * 1000\<bar> \<le> MAX_TIME"
    using assms by (simp add: MAX_TIME_def)
  have ex: "\<bar>(now div 1000 + expires_in (accessToken p)) * 1000\<bar> \<le> MAX_TIME"
    by (rule expiry_in_range [OF assms])
  show ?thesis
    using lo ex
    by (auto simp add: authState_signin selectIsAuthenticated_def selectExpiresAt_def
        algebra_simps)
qed

lemma fresh_read_after_signin_out_of_range:
  assumes "\<bar>now\<bar> \<le> MAX_TIME" and "MAX_TIME < now + 1000 * expires_in (accessToken p)"
  shows "expires_at (authState (signin now p ctx)) = NaN
     \<and> (selectIsAuthenticated t (authState (signin now p ctx))
           (selectExpiresAt (authState (signin now p ctx))) \<longleftrightarrow> t < 0)"
proof -
  have out: "\<not> \<bar>now + expires_in (accessToken p) * 1000\<bar> \<le> MAX_TIME"
    using assms by (simp add: MAX_TIME_def)
  show ?thesis
    using out by (simp add: authState_signin selectIsAuthenticated_def selectExpiresAt_def MAX_TIME_def)
qed

text \<open>
  C3, as claimed: after a sign-in at time \<open>now\<close> the session is valid exactly while the
  current time is before \<open>now\<close> plus the lifetime, and not valid afterwards. Times are
  milliseconds. After a sign-in at 1500 ms with a lifetime of one second, a first read at
  2200 ms, before \<open>now\<close> plus the lifetime, finds the session not valid; a read at
  3000 ms, after \<open>now\<close> plus the lifetime, that follows a read at 1600 ms of the same
  state object finds it valid; and with a lifetime of 8640000000001 seconds a first read at
  the time of the sign-in finds it not valid.
\<close>

theorem signin_validity_counterexample:
  "(2200::int) < 1500 + 1 * 1000
   \<and> \<not> fst (store_selectIsAuthenticated 2200 None (1, authState (dispatch 1500
        (Signin \<lparr>accessToken = \<lparr>token_access_token = ''jwt'', expires_in = 1\<rparr>,
                 signin_userId = ''u1''\<rparr>)
        \<lparr>authState = defaults, localStorage = Map.empty\<rparr>)))
   \<and> (1500::int) + 1 * 1000 \<le> 3000
   \<and> fst (store_selectIsAuthenticated 3000
        (snd (store_selectIsAuthenticated 1600 None (1, authState (dispatch 1500
          (Signin \<lparr>accessToken = \<lparr>token_access_token = ''jwt'', expires_in = 1\<rparr>,
                   signin_userId = ''u1''\<rparr>)
          \<lparr>authState = defaults, localStorage = Map.empty\<rparr>))))
        (1, authState (dispatch 1500
          (Signin \<lparr>accessToken = \<lparr>token_access_token = ''jwt'', expires_in = 1\<rparr>,
                   signin_userId = ''u1''\<rparr>)
          \<lparr>authState = defaults, localStorage = Map.empty\<rparr>)))
   \<and> (1500::int) < 1500 + 8640000000001 * 1000
   \<and> \<not> fst (store_selectIsAuthenticated 1500 None (1, authState (dispatch 1500
        (Signin \<lparr>accessToken = \<lparr>token_access_token = ''jwt'', expires_in = 8640000000001\<rparr>,
                 signin_userId = ''u1''\<rparr>)
        \<lparr>authState = defaults, localStorage = Map.empty\<rparr>)))"
  by (simp add: store_selectIsAuthenticated_def memoize_def Let_def authState_signin
      selectIsAuthenticated_def selectExpiresAt_def MAX_TIME_def defaults_def)

text \<open>
  C3, amended. Let the clock be a valid date, the lifetime at least 0 seconds, and take
  any state object holding the state a sign-in at time \<open>now\<close> leaves. A read of it that
  the selector's memo does not answer (the memo does not hold this object, as after a
  sign-in that replaced the state object) runs the selector at the time \<open>t\<close> of the
  read. If \<open>now\<close> plus the lifetime is within the range of a date, the session is then
  valid exactly when \<open>t\<close> is before the expiry kept in whole unix seconds,
  \<open>1000 * (floor (now / 1000) + lifetime)\<close> milliseconds: valid at every \<open>t\<close> up to
  one second before \<open>now\<close> plus the lifetime, valid at \<open>now\<close> for a lifetime of at
  least one second. In every case it is not valid at any \<open>t\<close> from \<open>now\<close> plus the
  lifetime on, so with a lifetime of 0 not at \<open>now\<close> or later. If \<open>now\<close> plus the
  lifetime is beyond the range of a date, \<open>expires_at\<close> is \<open>NaN\<close> and the session is
  not valid at any time from the epoch on. A later read of the same state object returns
  what the read before it returned, whatever the time.
\<close>

theorem signin_valid_until_whole_second_expiry:
  assumes "0 \<le> life" and "\<bar>now\<bar> \<le> MAX_TIME"
    and "life = expires_in (accessToken p)"
    and "s = authState (dispatch now (Signin p) ctx)"
  shows "(\<not> cached memo r \<and> now + 1000 * life \<le> MAX_TIME \<longrightarrow>
            (fst (store_selectIsAuthenticated t memo (r, s)) \<longleftrightarrow>
               t < 1000 * (now div 1000 + life)))
    \<and> (\<not> cached memo r \<and> now + 1000 * life \<le> MAX_TIME \<and> t + 1000 \<le> now + 1000 * life \<longrightarrow>
          fst (store_selectIsAuthenticated t memo (r, s)))
    \<and> (\<not> cached memo r \<and> now + 1000 * life \<le> t \<longrightarrow>
          \<not> fst (store_selectIsAuthenticated t memo (r, s)))
    \<and> (\<not> cached memo r \<and> life = 0 \<and> now \<le> t \<longrightarrow>
          \<not> fst (store_selectIsAuthenticated t memo (r, s)))
    \<and> (\<not> cached memo r \<and> 1 \<le> life \<and> now + 1000 * life \<le> MAX_TIME \<longrightarrow>
          fst (store_selectIsAuthenticated now memo (r, s)))
    \<and> (MAX_TIME < now + 1000 * life \<longrightarrow> expires_at s = NaN)
    \<and> (\<not> cached memo r \<and> MAX_TIME < now + 1000 * life \<and> 0 \<le> t \<longrightarrow>
          \<not> fst (store_selectIsAuthenticated t memo (r, s)))
    \<and> fst (store_selectIsAuthenticated t' (snd (store_selectIsAuthenticated t memo (r, s))) (r, s))
        = fst (store_selectIsAuthenticated t memo (r, s))"
proof -
  have s: "s = authState (signin now p ctx)"
    using assms(4) by simp
  have miss: "\<not> cached memo r \<Longrightarrow>
      fst (store_selectIsAuthenticated u memo (r, s)) =
        selectIsAuthenticated u s (selectExpiresAt s)" for u
    by (simp add: store_selectIsAuthenticated_def memoize_miss)
  have inr: "now + 1000 * life \<le> MAX_TIME \<Longrightarrow>
      selectIsAuthenticated u s (selectExpiresAt s) \<longleftrightarrow> u < 1000 * (now div 1000 + life)" for u
    using assms(1,2) fresh_read_after_signin_in_range [where p = p and now = now and t = u and ctx = ctx]
    by (simp add: s assms(3))
  have outr: "MAX_TIME < now + 1000 * life \<Longrightarrow>
      expires_at s = NaN \<and> (selectIsAuthenticated u s (selectExpiresAt s) \<longleftrightarrow> u < 0)" for u
    using assms(2) fresh_read_after_signin_out_of_range [where p = p and now = now and t = u and ctx = ctx]
    by (simp add: s assms(3))
  have lo: "now - 1000 < 1000 * (now div 1000)" and hi: "1000 * (now div 1000) \<le> now"
    by linarith+
  have again: "fst (store_selectIsAuthenticated t'
        (snd (store_selectIsAuthenticated t memo (r, s))) (r, s))
      = fst (store_selectIsAuthenticated t memo (r, s))"
    by (simp add: store_selectIsAuthenticated_def memoize_again)
  have c1: "\<not> cached memo r \<and> now + 1000 * life \<le> MAX_TIME \<longrightarrow>
            (fst (store_selectIsAuthenticated t memo (r, s)) \<longleftrightarrow>
               t < 1000 * (now div 1000 + life))"
    using miss [of t] inr [of t] by simp
  have c2: "\<not> cached memo r \<and> now + 1000 * life \<le> MAX_TIME \<and> t + 1000 \<le> now + 1000 * life \<longrightarrow>
          fst (store_selectIsAuthenticated t memo (r, s))"
    using c1 lo by auto
  have c3: "\<not> cached memo r \<and> now + 1000 * life \<le> t \<longrightarrow>
          \<not> fst (store_selectIsAuthenticated t memo (r, s))"
  proof (cases "now + 1000 * life \<le> MAX_TIME")
    case True
    then show ?thesis using c1 hi by auto
  next
    case False
    then have "0 < now + 1000 * life" by (simp add: MAX_TIME_def)
    then show ?thesis using False miss [of t] outr [of t] by auto
  qed
  have c4: "\<not> cached memo r \<and> life = 0 \<and> now \<le> t \<longrightarrow>
          \<not> fst (store_selectIsAuthenticated t memo (r, s))"
    using c3 by auto
  have c5: "\<not> cached memo r \<and> 1 \<le> life \<and> now + 1000 * life \<le> MAX_TIME \<longrightarrow>
          fst (store_selectIsAuthenticated now memo (r, s))"
    using miss [of now] inr [of now] hi by auto
  have c6: "MAX_TIME < now + 1000 * life \<longrightarrow> expires_at s = NaN"
    using outr by simp
  have c7: "\<not> cached memo r \<and> MAX_TIME < now + 1000 * life \<and> 0 \<le> t \<longrightarrow>
          \<not> fst (store_selectIsAuthenticated t memo (r, s))"
    using miss [of t] outr [of t] by auto
  show ?thesis
    using c1 c2 c3 c4 c5 c6 c7 again by blast
qed

theorem signin_valid_until_whole_second_expiry_witness:
  "fst (store_selectIsAuthenticated 1999 None (1, authState (dispatch 1500
        (Signin \<lparr>accessToken = \<lparr>token_access_token = ''jwt'', expires_in = 1\<rparr>,
                 signin_userId = ''u1''\<rparr>)
        \<lparr>authState = defaults, localStorage = Map.empty\<rparr>)))
   \<and> \<not> fst (store_selectIsAuthenticated 2000 None (1, authState (dispatch 1500
        (Signin \<lparr>accessToken = \<lparr>token_access_token = ''jwt'', expires_in = 1\<rparr>,
                 signin_userId = ''u1''\<rparr>)
        \<lparr>authState = defaults, localStorage = Map.empty\<rparr>)))"
  using signin_valid_until_whole_second_expiry [where life = 1 and now = 1500
      and p = "\<lparr>accessToken = \<lparr>token_access_token = ''jwt'', expires_in = 1\<rparr>, signin_userId = ''u1''\<rparr>"
      and ctx = "\<lparr>authState = defaults, localStorage = Map.empty\<rparr>"
      and memo = None and r = 1 and t = 1999, OF _ _ _ refl]
    signin_valid_until_whole_second_expiry [where life = 1 and now = 1500
      and p = "\<lparr>accessToken = \<lparr>token_access_token = ''jwt'', expires_in = 1\<rparr>, signin_userId = ''u1''\<rparr>"
      and ctx = "\<lparr>authState = defaults, localStorage = Map.empty\<rparr>"
      and memo = None and r = 1 and t = 2000, OF _ _ _ refl]
  by (simp add: cached_def MAX_TIME_def)

lemma produce_signout:
  "produce signout_recipe s =
     s\<lparr> isAuthenticated := False, is2StepVerificationRequired := False,
        is2StepVerificationSuccessful := False, isRedeemRecoveryCodeSuccessful := False,
        access_token := '''', expires_at := Num 0, userId := '''' \<rparr>"
  by (simp add: produce_def signout_recipe_def)

lemma authState_signout: "authState (signout ctx) = produce signout_recipe (authState ctx)"
  by (simp add: signout_def setState_def removeItem_def getState_def persistSettings_def
      setItem_def)

text \<open>
  C4. Whatever the prior state, after the Signout action the state has
  \<open>isAuthenticated = false\<close>, an empty \<open>access_token\<close>, \<open>expires_at = 0\<close>, an empty
  \<open>userId\<close>, and the two second-factor flags and the recovery-code flag all false.
\<close>

theorem signout_clears_session:
  "isAuthenticated (authState (dispatch now Signout ctx)) = False
   \<and> access_token (authState (dispatch now Signout ctx)) = ''''
   \<and> expires_at (authState (dispatch now Signout ctx)) = Num 0
   \<and> userId (authState (dispatch now Signout ctx)) = ''''
   \<and> is2StepVerificationRequired (authState (dispatch now Signout ctx)) = False
   \<and> is2StepVerificationSuccessful (authState (dispatch now Signout ctx)) = False
   \<and> isRedeemRecoveryCodeSuccessful (authState (dispatch now Signout ctx)) = False"
  by (simp add: authState_signout produce_signout)

text \<open>
  C5. Whatever the prior state, the Signout action leaves \<open>rememberMe\<close>, \<open>username\<close>
  and \<open>activeAuthType\<close> as they were.
\<close>

theorem signout_preserves_preferences:
  "rememberMe (authState (dispatch now Signout ctx)) = rememberMe (authState ctx)
   \<and> username (authState (dispatch now Signout ctx)) = username (authState ctx)
   \<and> activeAuthType (authState (dispatch now Signout ctx)) = activeAuthType (authState ctx)"
  by (simp add: authState_signout produce_signout)

text \<open>
  C9, as claimed: for every state and current time the seconds until expiry are the
  absolute value of the expiry minus the current time, in seconds, and never negative. For
  \<open>expires_at = 9007199254740\<close> the expiry is no valid date and the selector gives
  \<open>NaN\<close>; and for \<open>expires_at = 10\<close> a read at 5000 ms that follows a read at 0 ms of
  the same state object gives 10, not 5.
\<close>

theorem expires_in_seconds_counterexample:
  "fst (store_selectExpiresInSeconds 0 None (1, defaults\<lparr>expires_at := Num 9007199254740\<rparr>)) = NaN
   \<and> \<bar>real_of_int (1000 * 10 - 5000)\<bar> / 1000 = 5
   \<and> fst (store_selectExpiresInSeconds 5000
        (snd (store_selectExpiresInSeconds 0 None (1, defaults\<lparr>expires_at := Num 10\<rparr>)))
        (1, defaults\<lparr>expires_at := Num 10\<rparr>)) = Num 10"
  by (simp add: store_selectExpiresInSeconds_def memoize_def Let_def selectExpiresInSeconds_def
      selectExpiresAt_def MAX_TIME_def defaults_def)

text \<open>
  C9, amended. Take a read, at time \<open>now\<close>, of a state object that the selector's memo
  does not answer (the memo does not hold this object): the selector runs. When
  \<open>expires_at\<close> is a whole number of seconds whose milliseconds are within the range of
  a date, the result is the absolute value of the expiry instant minus \<open>now\<close>, divided
  by 1000; when \<open>expires_at\<close> is \<open>NaN\<close>, the expiry is the epoch and the result is
  the absolute value of \<open>now\<close> divided by 1000; when the milliseconds are beyond the
  range of a date, the result is \<open>NaN\<close>. The result is \<open>NaN\<close> or not negative. A later
  read of the same state object returns what the read before it returned, whatever the
  time.
\<close>

theorem expires_in_seconds_is_absolute_difference:
  "(\<not> cached memo r \<and> expires_at state = Num u \<and> \<bar>1000 * u\<bar> \<le> MAX_TIME \<longrightarrow>
            fst (store_selectExpiresInSeconds now memo (r, state))
              = Num (\<bar>real_of_int (1000 * u - now)\<bar> / 1000))
    \<and> (\<not> cached memo r \<and> expires_at state = NaN \<longrightarrow>
          fst (store_selectExpiresInSeconds now memo (r, state)) = Num (\<bar>real_of_int now\<bar> / 1000))
    \<and> (\<not> cached memo r \<and> expires_at state = Num u \<and> MAX_TIME < \<bar>1000 * u\<bar> \<longrightarrow>
          fst (store_selectExpiresInSeconds now memo (r, state)) = NaN)
    \<and> (\<not> cached memo r \<longrightarrow>
          fst (store_selectExpiresInSeconds now memo (r, state)) = NaN
          \<or> nonnegative (fst (store_selectExpiresInSeconds now memo (r, state))))
    \<and> fst (store_selectExpiresInSeconds now'
          (snd (store_selectExpiresInSeconds now memo (r, state))) (r, state))
        = fst (store_selectExpiresInSeconds now memo (r, state))"
proof -
  have miss: "\<not> cached memo r \<Longrightarrow>
      fst (store_selectExpiresInSeconds now memo (r, state)) =
        selectExpiresInSeconds now state (selectExpiresAt state)"
    by (simp add: store_selectExpiresInSeconds_def memoize_miss)
  have c1: "expires_at state = Num u \<and> \<bar>1000 * u\<bar> \<le> MAX_TIME \<longrightarrow>
      selectExpiresInSeconds now state (selectExpiresAt state)
        = Num (\<bar>real_of_int (1000 * u - now)\<bar> / 1000)"
    by (auto simp add: selectExpiresInSeconds_def selectExpiresAt_def Let_def mult.commute)
  have c2: "expires_at state = NaN \<longrightarrow>
      selectExpiresInSeconds now state (selectExpiresAt state) = Num (\<bar>real_of_int now\<bar> / 1000)"
    by (auto simp add: selectExpiresInSeconds_def selectExpiresAt_def Let_def MAX_TIME_def)
  have c3: "expires_at state = Num u \<and> MAX_TIME < \<bar>1000 * u\<bar> \<longrightarrow>
      selectExpiresInSeconds now state (selectExpiresAt state) = NaN"
    by (auto simp add: selectExpiresInSeconds_def selectExpiresAt_def Let_def mult.commute
        MAX_TIME_def)
  have c4: "selectExpiresInSeconds now state (selectExpiresAt state) = NaN
      \<or> nonnegative (selectExpiresInSeconds now state (selectExpiresAt state))"
    by (cases "selectExpiresAt state") (simp_all add: selectExpiresInSeconds_def Let_def)
  have again: "fst (store_selectExpiresInSeconds now'
          (snd (store_selectExpiresInSeconds now memo (r, state))) (r, state))
        = fst (store_selectExpiresInSeconds now memo (r, state))"
    by (simp add: store_selectExpiresInSeconds_def memoize_again)
  show ?thesis
    using miss c1 c2 c3 c4 again by auto
qed

theorem expires_in_seconds_is_absolute_difference_witness:
  "fst (store_selectExpiresInSeconds 12500 None (1, defaults\<lparr>expires_at := Num 10\<rparr>)) = Num (5 / 2)
   \<and> fst (store_selectExpiresInSeconds 12500 None (1, defaults\<lparr>expires_at := NaN\<rparr>)) = Num (25 / 2)
   \<and> fst (store_selectExpiresInSeconds 12500 None (1, defaults\<lparr>expires_at := Num 9007199254740\<rparr>)) = NaN"
  using expires_in_seconds_is_absolute_difference [where now = 12500 and memo = None and r = 1
      and state = "defaults\<lparr>expires_at := Num 10\<rparr>" and u = 10]
    expires_in_seconds_is_absolute_difference [where now = 12500 and memo = None and r = 1
      and state = "defaults\<lparr>expires_at := NaN\<rparr>"]
    expires_in_seconds_is_absolute_difference [where now = 12500 and memo = None and r = 1
      and state = "defaults\<lparr>expires_at := Num 9007199254740\<rparr>" and u = 9007199254740]
  by (simp add: cached_def MAX_TIME_def)

section \<open>Properties of the HTTP status interceptor\<close>

text \<open>
  C6. For every body, a response with status 400 stores the body as \<open>problemDetails\<close> and
  yields \<open>NEVER\<close>: nothing is emitted and no failure reaches the caller. With status 401
  or 403 the body is stored as \<open>problemDetails\<close> and the response is thrown.
\<close>

theorem bad_request_absorbed_auth_rejection_thrown:
  "handleError odm \<lparr>status = 400, error = body\<rparr> svc =
      (svc\<lparr>problemDetails := Some body\<rparr>, NEVER)
   \<and> is_hard_failure (snd (handleError odm \<lparr>status = 400, error = body\<rparr> svc)) = False
   \<and> handleError odm \<lparr>status = 401, error = body\<rparr> svc =
      (svc\<lparr>problemDetails := Some body\<rparr>,
       throwError (ThrownResponse \<lparr>status = 401, error = body\<rparr>))
   \<and> handleError odm \<lparr>status = 403, error = body\<rparr> svc =
      (svc\<lparr>problemDetails := Some body\<rparr>,
       throwError (ThrownResponse \<lparr>status = 403, error = body\<rparr>))
   \<and> is_hard_failure (snd (handleError odm \<lparr>status = 401, error = body\<rparr> svc))
   \<and> is_hard_failure (snd (handleError odm \<lparr>status = 403, error = body\<rparr> svc))"
  by (simp add: handleError_def)

text \<open>
  C7, as claimed: with status 504 the stored error's message is the string
  \<open>server is down\<close>. The stored error is not that one.
\<close>

theorem gateway_timeout_message_counterexample:
  "internalServerErrorDetails (fst (handleError ((=) ''odm'') \<lparr>status = 504, error = ''body''\<rparr>
      \<lparr>problemDetails = None, internalServerErrorDetails = None\<rparr>))
   \<noteq> Some (ErrorObject 504 (TextMessage ''server is down''))"
  by (simp add: handleError_def Let_def)

text \<open>
  C7, amended. For every body, a response with status 504 yields the error object with
  status 504 and the fixed message \<open>Server is down.\<close> (capital S, final full stop); the
  object is stored as \<open>internalServerErrorDetails\<close> and thrown.
\<close>

theorem gateway_timeout_server_is_down:
  "handleError odm \<lparr>status = 504, error = body\<rparr> svc =
     (svc\<lparr>internalServerErrorDetails := Some (ErrorObject 504 (TextMessage ''Server is down.''))\<rparr>,
      throwError (ThrownDetails (ErrorObject 504 (TextMessage ''Server is down.''))))
   \<and> is_hard_failure (snd (handleError odm \<lparr>status = 504, error = body\<rparr> svc))"
  by (simp add: handleError_def Let_def)

section \<open>Properties of the sign-in container\<close>

text \<open>
  C8. For every submitted model, the submit handler calls \<open>signinUser\<close> with the model,
  once, when both \<open>email\<close> and \<open>password\<close> are non-empty, and makes no call when either
  is the empty string: a call is made if and only if both are non-empty.
\<close>

theorem signin_submitted_dispatches_iff_both_nonempty:
  "signinUser_calls (onSigninSubmitted model c) =
     (if email model \<noteq> '''' \<and> password model \<noteq> ''''
      then signinUser_calls c @ [model] else signinUser_calls c)
   \<and> (signinUser_calls (onSigninSubmitted model c) \<noteq> signinUser_calls c
        \<longleftrightarrow> email model \<noteq> '''' \<and> password model \<noteq> '''')"
  by (simp add: onSigninSubmitted_def Let_def)

section \<open>Properties of the two factor authentication component\<close>

lemmas tfa_defs =
  set_problemDetails_def set_internalServerErrorDetails_def set_twoFactorAuthToggleLoading_def
  twoFactorAuthToggleLoading_timeout_def set_authenticatorSetup_def removeServerErrors_def
  onTwoFactorAuthToggle_def onCancelSetupWizard_def onFinish2faSetup_def
  onGenerateNew2FaRecoveryCodes_def onVerifyAuthenticator_def onUserCodesPanelClosed_def
  emit_def Let_def

lemma step_at_most_one_error: "at_most_one_error c \<Longrightarrow> at_most_one_error (step e c)"
  by (cases e) (auto simp add: at_most_one_error_def tfa_defs)

lemma fold_step_at_most_one_error:
  "at_most_one_error c \<Longrightarrow> at_most_one_error (fold step es c)"
  by (induction es arbitrary: c) (simp_all add: step_at_most_one_error)

lemma initial_at_most_one_error: "at_most_one_error initial"
  by (simp add: at_most_one_error_def initial_def)

text \<open>
  C10, as claimed: every user action handler clears both error slots. The handler
  \<open>_onFinish2faSetup\<close> does not: a stored problem-details value is still there after it.
\<close>

theorem finish_setup_keeps_error_counterexample:
  "tfa_problemDetails (onFinish2faSetup ''done''
      (set_problemDetails (Some ''bad code'')
         (initial :: (string, string, bool, string, string) TwoFactorAuthenticationComponent)))
   = Some ''bad code''"
  by (simp add: tfa_defs initial_def)

text \<open>
  C10, amended. Assigning the \<open>problemDetails\<close> input nulls the internal-server-error
  slot and stores the value; assigning the \<open>internalServerErrorDetails\<close> input nulls the
  problem-details slot and stores the value; so at most one slot is non-null after either
  setter. The handlers \<open>_onTwoFactorAuthToggle\<close>, \<open>_onCancelSetupWizard\<close>,
  \<open>_onGenerateNew2FaRecoveryCodes\<close>, \<open>_onVerifyAuthenticator\<close> and
  \<open>_onUserCodesPanelClosed\<close> clear both slots; \<open>_onFinish2faSetup\<close> leaves both as they
  were. Whatever happens to the component from its construction on, at most one of the two
  slots is non-null.
\<close>

theorem error_slots_exclusive:
  "tfa_internalServerErrorDetails (set_problemDetails v c) = None
   \<and> tfa_problemDetails (set_problemDetails v c) = v
   \<and> at_most_one_error (set_problemDetails v c)
   \<and> tfa_problemDetails (set_internalServerErrorDetails w c) = None
   \<and> tfa_internalServerErrorDetails (set_internalServerErrorDetails w c) = w
   \<and> at_most_one_error (set_internalServerErrorDetails w c)
   \<and> tfa_problemDetails (onTwoFactorAuthToggle t c) = None
   \<and> tfa_internalServerErrorDetails (onTwoFactorAuthToggle t c) = None
   \<and> tfa_problemDetails (onCancelSetupWizard c) = None
   \<and> tfa_internalServerErrorDetails (onCancelSetupWizard c) = None
   \<and> tfa_problemDetails (onGenerateNew2FaRecoveryCodes c) = None
   \<and> tfa_internalServerErrorDetails (onGenerateNew2FaRecoveryCodes c) = None
   \<and> tfa_problemDetails (onVerifyAuthenticator code c) = None
   \<and> tfa_internalServerErrorDetails (onVerifyAuthenticator code c) = None
   \<and> tfa_problemDetails (onUserCodesPanelClosed c) = None
   \<and> tfa_internalServerErrorDetails (onUserCodesPanelClosed c) = None
   \<and> tfa_problemDetails (onFinish2faSetup r c) = tfa_problemDetails c
   \<and> tfa_internalServerErrorDetails (onFinish2faSetup r c) = tfa_internalServerErrorDetails c
   \<and> at_most_one_error (fold step events initial)"
proof -
  have reach: "at_most_one_error (fold step events initial)"
    by (rule fold_step_at_most_one_error [OF initial_at_most_one_error])
  have setters: "at_most_one_error (set_problemDetails v c)"
    "at_most_one_error (set_internalServerErrorDetails w c)"
    by (simp_all add: at_most_one_error_def tfa_defs)
  show ?thesis
    using reach setters by (simp add: tfa_defs)
qed

end
